theory Spec2Isabelle
  imports Main
begin

section \<open>Strings\<close>

text \<open>
  A Python \<open>str\<close> is a sequence of Unicode code points, so it is modelled as a list of
  natural numbers. The Cyrillic literals of the bot are written as their code points,
  ASCII literals through \<open>ascii\<close>.
\<close>

type_synonym pystr = "nat list"

definition ascii :: "string \<Rightarrow> pystr" where
  "ascii s = map of_char s"

text \<open>The seven weekday labels of the two tables of the source, Monday first.\<close>

definition Ponedelnik :: pystr where
  "Ponedelnik = [1055, 1086, 1085, 1077, 1076, 1077, 1083, 1100, 1085, 1080, 1082]"

definition Vtornik :: pystr where
  "Vtornik = [1042, 1090, 1086, 1088, 1085, 1080, 1082]"

definition Sreda :: pystr where
  "Sreda = [1057, 1088, 1077, 1076, 1072]"

definition Chetverg :: pystr where
  "Chetverg = [1063, 1077, 1090, 1074, 1077, 1088, 1075]"

definition Pyatnitsa :: pystr where
  "Pyatnitsa = [1055, 1103, 1090, 1085, 1080, 1094, 1072]"

definition Subbota :: pystr where
  "Subbota = [1057, 1091, 1073, 1073, 1086, 1090, 1072]"

definition Voskresenye :: pystr where
  "Voskresenye = [1042, 1086, 1089, 1082, 1088, 1077, 1089, 1077, 1085, 1100, 1077]"

text \<open>\<open>str(x)\<close> of an optional string, as an f-string renders it: \<open>None\<close> prints as "None".\<close>

definition py_str :: "pystr option \<Rightarrow> pystr" where
  "py_str v = (case v of None \<Rightarrow> ascii ''None'' | Some s \<Rightarrow> s)"

text \<open>\<open>str(n)\<close> of a non-negative integer: its decimal digits.\<close>

fun str_nat :: "nat \<Rightarrow> pystr" where
  "str_nat n = (if n < 10 then [48 + n] else str_nat (n div 10) @ [48 + n mod 10])"

definition bold :: "pystr \<Rightarrow> pystr" where
  "bold text = ascii ''<b>'' @ text @ ascii ''</b>''"

definition code :: "pystr \<Rightarrow> pystr" where
  "code text = ascii ''<code>'' @ text @ ascii ''</code>''"

section \<open>The persisted document\<close>

text \<open>
  An event is a \<open>Dict[str, str]\<close> read with \<open>ev.get\<close> on four keys; a key that is
  missing is \<open>None\<close>.
\<close>

record event =
  day :: "pystr option"
  time :: "pystr option"
  title :: "pystr option"
  description :: "pystr option"

text \<open>
  The values under the keys the scheduler never reads (\<open>company\<close>, \<open>team\<close>,
  \<open>contacts\<close>, anything else) are kept as JSON values; numbers are integers.
\<close>

datatype json =
    JNull
  | JBool bool
  | JInt int
  | JStr pystr
  | JList "json list"
  | JObj "(pystr \<times> json) list"

text \<open>
  The document is a \<open>Dict[str, Any]\<close>. The three keys read through
  \<open>data.get(key, default)\<close> are optional fields (\<open>None\<close>: the key is missing), with
  the types the source annotates: \<open>subscribers: List[int]\<close>,
  \<open>events: List[Dict[str, str]]\<close>, and \<open>digests\<close> a dictionary from weekday label to
  message text.
\<close>

record document =
  subscribers :: "int list option"
  events :: "event list option"
  digests :: "(pystr \<times> pystr) list option"
  others :: "(pystr \<times> json) list"

definition empty_document :: document where
  "empty_document = \<lparr>subscribers = None, events = None, digests = None, others = []\<rparr>"

text \<open>\<open>data.get(key, [])\<close> and \<open>data.get("digests", {})\<close>.\<close>

definition get_subscribers :: "document \<Rightarrow> int list" where
  "get_subscribers data = (case subscribers data of None \<Rightarrow> [] | Some s \<Rightarrow> s)"

definition get_events :: "document \<Rightarrow> event list" where
  "get_events data = (case events data of None \<Rightarrow> [] | Some es \<Rightarrow> es)"

definition get_digests :: "document \<Rightarrow> (pystr \<times> pystr) list" where
  "get_digests data = (case digests data of None \<Rightarrow> [] | Some d \<Rightarrow> d)"

section \<open>Effects\<close>

datatype exn = KeyError | ValueError

text \<open>
  A log record is kept by what it reports. The warning about an invalid time zone also
  keeps its format string, the one text that differs between the two files.
\<close>

datatype log_msg =
    DataNotFound
  | ParseFailed
  | SaveFailed
  | InvalidTimezone pystr pystr
  | DigestSendFailed int
  | ReminderSendFailed int
  | ScheduleFailed event exn

text \<open>
  What a handler does to the outside, in order: a log record, the atomic replacement of
  \<open>data.json\<close>, a reply to the incoming message, a message sent to a chat.
\<close>

datatype effect =
    LogError log_msg
  | LogWarning log_msg
  | Replaced document
  | Reply pystr
  | SendMessage int pystr

section \<open>Store: \<open>load_data\<close> and \<open>save_data\<close>\<close>

text \<open>
  For the handlers a file holds either text that \<open>json.load\<close> rejects, or a document,
  standing for a text that \<open>json.load\<close> reads as that document. \<open>writable\<close> says whether
  the write of \<open>save_data\<close> succeeds: opening the temporary file, \<open>json.dump\<close> with the
  encoding of its text, and the renaming; when one of them raises, \<open>save_data\<close> catches
  the exception and logs it. The text that \<open>json.dump\<close> writes, the documents it cannot
  write, and what \<open>json.load\<close> makes of a text are the subject of the next section.
\<close>

datatype file_content = Unparsable | Json document

record fs =
  data_file :: "file_content option"
  tmp_file :: "file_content option"
  writable :: bool

definition load_data :: "fs \<Rightarrow> document \<times> effect list" where
  "load_data f =
     (case data_file f of
        None \<Rightarrow> (empty_document, [LogError DataNotFound])
      | Some Unparsable \<Rightarrow> (empty_document, [LogError ParseFailed])
      | Some (Json d) \<Rightarrow> (d, []))"

definition save_data :: "document \<Rightarrow> fs \<Rightarrow> fs \<times> effect list" where
  "save_data data f =
     (if writable f then
        (let f1 = f\<lparr>tmp_file := Some (Json data)\<rparr>;
             f2 = f1\<lparr>data_file := tmp_file f1, tmp_file := None\<rparr>
         in (f2, [Replaced data]))
      else (f, [LogError SaveFailed]))"

section \<open>The JSON text of the store\<close>

text \<open>
  \<open>save_data\<close> calls \<open>json.dump(data, f, ensure_ascii=False, indent=2)\<close> on a file opened
  with \<open>encoding="utf-8"\<close>, and \<open>load_data\<close> calls \<open>json.load\<close> on the file opened the
  same way. This section models the text between the two calls: the text the encoder of
  the \<open>json\<close> module (CPython 3.11) writes for a value, and the value its decoder makes
  of a text. A value is a \<open>json\<close>: \<open>None\<close>, a \<open>bool\<close>, an \<open>int\<close>, a \<open>str\<close>, a \<open>list\<close>, or a
  \<open>dict\<close> with \<open>str\<close> keys, given as the list of its items in insertion order. Floats are
  outside the model, and so are the limits of the interpreter (memory, recursion depth,
  the digit limit of the conversion between \<open>int\<close> and \<open>str\<close>).
\<close>

subsection \<open>\<open>json.dump\<close>\<close>

text \<open>
  With \<open>ensure_ascii=False\<close> a string is written between double quotes with only the
  quote, the backslash and the characters below U+0020 escaped (\<open>\b \f \n \r \t\<close>, else
  \<open>\u00xx\<close> in lower case); every other code point is written as it is. With
  \<open>indent=2\<close> the items of a non-empty list or dict are each on a line of their own,
  indented by two spaces per level and separated by a comma at the end of the line;
  a key and its value are separated by a colon and a space; an empty list is \<open>[]\<close> and
  an empty dict \<open>{}\<close>.
\<close>

definition hex_digit :: "nat \<Rightarrow> nat" where
  "hex_digit d = (if d < 10 then 48 + d else 87 + d)"

definition escape_char :: "nat \<Rightarrow> pystr" where
  "escape_char c =
     (if c = 34 then [92, 34]
      else if c = 92 then [92, 92]
      else if c = 10 then [92, 110]
      else if c = 13 then [92, 114]
      else if c = 9 then [92, 116]
      else if c = 8 then [92, 98]
      else if c = 12 then [92, 102]
      else if c < 32 then [92, 117, 48, 48, hex_digit (c div 16), hex_digit (c mod 16)]
      else [c])"

definition dump_str :: "pystr \<Rightarrow> pystr" where
  "dump_str s = [34] @ concat (map escape_char s) @ [34]"

definition dump_int :: "int \<Rightarrow> pystr" where
  "dump_int n = (if n < 0 then 45 # str_nat (nat (- n)) else str_nat (nat n))"

definition newline_indent :: "nat \<Rightarrow> pystr" where
  "newline_indent level = 10 # replicate (2 * level) 32"

fun dumps :: "nat \<Rightarrow> json \<Rightarrow> pystr"
  and dump_items :: "nat \<Rightarrow> json list \<Rightarrow> pystr"
  and dump_members :: "nat \<Rightarrow> (pystr \<times> json) list \<Rightarrow> pystr" where
  "dumps level JNull = ascii ''null''"
| "dumps level (JBool b) = (if b then ascii ''true'' else ascii ''false'')"
| "dumps level (JInt n) = dump_int n"
| "dumps level (JStr s) = dump_str s"
| "dumps level (JList []) = ascii ''[]''"
| "dumps level (JList (x # xs)) =
     [91] @ newline_indent (Suc level) @ dump_items (Suc level) (x # xs)
     @ newline_indent level @ [93]"
| "dumps level (JObj []) = ascii ''{}''"
| "dumps level (JObj (kv # kvs)) =
     [123] @ newline_indent (Suc level) @ dump_members (Suc level) (kv # kvs)
     @ newline_indent level @ [125]"
| "dump_items level [] = []"
| "dump_items level [x] = dumps level x"
| "dump_items level (x # y # ys) =
     dumps level x @ [44] @ newline_indent level @ dump_items level (y # ys)"
| "dump_members level [] = []"
| "dump_members level [(k, v)] = dump_str k @ [58, 32] @ dumps level v"
| "dump_members level ((k, v) # kv # kvs) =
     dump_str k @ [58, 32] @ dumps level v @ [44] @ newline_indent level
     @ dump_members level (kv # kvs)"


definition json_dumps :: "json \<Rightarrow> pystr" where
  "json_dumps j = dumps 0 j"

text \<open>
  The file is a UTF-8 text file: writing the text encodes it, which raises
  \<open>UnicodeEncodeError\<close> on a surrogate code point (U+D800 to U+DFFF).
\<close>

definition is_surrogate :: "nat \<Rightarrow> bool" where
  "is_surrogate c = (55296 \<le> c \<and> c \<le> 57343)"

definition utf8_encodable :: "pystr \<Rightarrow> bool" where
  "utf8_encodable s = list_all (\<lambda>c. \<not> is_surrogate c) s"

subsection \<open>\<open>json.load\<close>\<close>




















subsection \<open>The two calls on the file\<close>

text \<open>
  \<open>data_text\<close> is the decoded text of \<open>data.json\<close>, \<open>None\<close> when the file does not exist;
  \<open>text_writable\<close> says whether opening the temporary file for writing and renaming it
  succeed. \<open>save_data\<close> catches every exception of the write and logs it; \<open>os.replace\<close>
  is then not reached and \<open>data.json\<close> keeps its text. (The temporary file, which a
  failed write may leave behind with the beginning of the text, is never read by
  \<open>load_data\<close> and is not part of the record.)
\<close>

record text_fs =
  data_text :: "pystr option"
  text_writable :: bool


definition save_data_text :: "json \<Rightarrow> text_fs \<Rightarrow> text_fs \<times> effect list" where
  "save_data_text data f =
     (if text_writable f \<and> utf8_encodable (json_dumps data)
      then (f\<lparr>data_text := Some (json_dumps data)\<rparr>, [])
      else (f, [LogError SaveFailed]))"

subsection \<open>Well-formed values\<close>



section \<open>Time zone\<close>

text \<open>
  A \<open>pytz\<close> zone is modelled by the name it was asked for. \<open>known\<close> is the table of
  zone names of the time zone database, which is not part of the repository; \<open>tz_env\<close>
  is the value of the environment variable \<open>TIMEZONE\<close>. The two files differ in the
  text of the warning.
\<close>

definition get_timezone_lab2 :: "(pystr \<Rightarrow> bool) \<Rightarrow> pystr option \<Rightarrow> pystr \<times> effect list" where
  "get_timezone_lab2 known tz_env =
     (let tz_name = (case tz_env of None \<Rightarrow> ascii ''Europe/Moscow'' | Some n \<Rightarrow> n)
      in if known tz_name then (tz_name, [])
         else (ascii ''Europe/Moscow'',
               [LogWarning (InvalidTimezone
                  (ascii ''Invalid TIMEZONE '' @ [39] @ ascii ''%s'' @ [39]
                   @ ascii '', falling back to Europe/Moscow'') tz_name)]))"

definition get_timezone_lab3 :: "(pystr \<Rightarrow> bool) \<Rightarrow> pystr option \<Rightarrow> pystr \<times> effect list" where
  "get_timezone_lab3 known tz_env =
     (let tz_name = (case tz_env of None \<Rightarrow> ascii ''Europe/Moscow'' | Some n \<Rightarrow> n)
      in if known tz_name then (tz_name, [])
         else (ascii ''Europe/Moscow'',
               [LogWarning (InvalidTimezone
                  (ascii ''Invalid TIMEZONE '' @ [39] @ ascii ''%s'' @ [39]
                   @ ascii '', fallback to Europe/Moscow'') tz_name)]))"

section \<open>Clock arithmetic\<close>

text \<open>
  A \<open>datetime\<close> in the configured zone: the day as a proleptic ordinal, and the clock
  fields. Seconds and microseconds are left out: the scheduler sets them to zero.
  \<open>datetime.now(tz)\<close> is the current date, so the arithmetic stays inside the range
  of \<open>datetime\<close>.
\<close>

record datetime =
  ordinal :: int
  hour :: int
  minute :: int

text \<open>\<open>dt.weekday()\<close>: Monday is 0, Sunday is 6; ordinal 1 is a Monday.\<close>

definition weekday :: "datetime \<Rightarrow> nat" where
  "weekday dt = nat ((ordinal dt + 6) mod 7)"

text \<open>\<open>dt - timedelta(minutes=k)\<close>: the date takes the borrow.\<close>

definition minus_minutes :: "datetime \<Rightarrow> int \<Rightarrow> datetime" where
  "minus_minutes dt k =
     (let total = 60 * hour dt + minute dt - k
      in \<lparr>ordinal = ordinal dt + total div 1440,
          hour = (total mod 1440) div 60,
          minute = (total mod 1440) mod 60\<rparr>)"

section \<open>Weekday tables\<close>

definition weekday_names :: "pystr list" where
  "weekday_names = [Ponedelnik, Vtornik, Sreda, Chetverg, Pyatnitsa, Subbota, Voskresenye]"

definition weekday_ru :: "datetime \<Rightarrow> pystr" where
  "weekday_ru dt = weekday_names ! weekday dt"

definition weekdays :: "(pystr \<times> nat) list" where
  "weekdays = [(Ponedelnik, 0), (Vtornik, 1), (Sreda, 2), (Chetverg, 3),
               (Pyatnitsa, 4), (Subbota, 5), (Voskresenye, 6)]"

text \<open>\<open>mapping[ru]\<close> raises \<open>KeyError\<close> on a label that is not in the table.\<close>

definition ru_to_py_weekday :: "pystr \<Rightarrow> exn + nat" where
  "ru_to_py_weekday ru = (case map_of weekdays ru of None \<Rightarrow> Inl KeyError | Some i \<Rightarrow> Inr i)"

section \<open>Parsing \<open>%H:%M\<close>\<close>

text \<open>
  In a pattern on \<open>str\<close>, \<open>\d\<close> matches every Unicode decimal digit (category Nd),
  and \<open>int\<close> reads such digits by their decimal value. The decimal digits come in runs
  of ten consecutive code points, zero to nine; \<open>decimal_zeros\<close> lists the zero of each
  run, for the Unicode database 14.0 of CPython 3.11. The table is the interpreter's, not
  the repository's.
\<close>

definition decimal_zeros :: "nat list" where
  "decimal_zeros =
    [48, 1632, 1776, 1984, 2406, 2534, 2662, 2790, 2918, 3046, 3174, 3302, 3430, 3558,
     3664, 3792, 3872, 4160, 4240, 6112, 6160, 6470, 6608, 6784, 6800, 6992, 7088, 7232,
     7248, 42528, 43216, 43264, 43472, 43504, 43600, 44016, 65296, 66720, 68912, 69734,
     69872, 69942, 70096, 70384, 70736, 70864, 71248, 71360, 71472, 71904, 72016, 72784,
     73040, 73120, 92768, 92864, 93008, 120782, 120792, 120802, 120812, 120822, 123200,
     123632, 125264, 130032]"

definition decimal :: "nat \<Rightarrow> int option" where
  "decimal c =
     (case find (\<lambda>z. z \<le> c \<and> c < z + 10) decimal_zeros of
        None \<Rightarrow> None
      | Some z \<Rightarrow> Some (int c - int z))"

text \<open>
  \<open>datetime.strptime(s, "%H:%M").time()\<close>. The hour matches
  \<open>2[0-3]|[0-1]\d|\d\<close>, the minute \<open>[0-5]\d|\d\<close>, with a colon between and nothing
  before or after; anything else raises \<open>ValueError\<close>. The classes in brackets are
  ASCII, \<open>\d\<close> is any decimal digit.
\<close>

definition hour_of :: "nat list \<Rightarrow> int option" where
  "hour_of cs =
     (case cs of
        [a] \<Rightarrow> decimal a
      | [a, b] \<Rightarrow>
          if a = 50 \<and> 48 \<le> b \<and> b \<le> 51 then Some (20 + (int b - 48))
          else if a = 48 \<or> a = 49
               then (case decimal b of
                       None \<Rightarrow> None
                     | Some v \<Rightarrow> Some (10 * (int a - 48) + v))
               else None
      | _ \<Rightarrow> None)"

definition minute_of :: "nat list \<Rightarrow> int option" where
  "minute_of cs =
     (case cs of
        [a] \<Rightarrow> decimal a
      | [a, b] \<Rightarrow>
          if 48 \<le> a \<and> a \<le> 53
          then (case decimal b of
                  None \<Rightarrow> None
                | Some v \<Rightarrow> Some (10 * (int a - 48) + v))
          else None
      | _ \<Rightarrow> None)"

definition strptime_HM :: "pystr \<Rightarrow> exn + (int \<times> int)" where
  "strptime_HM s =
     (let hs = takeWhile (\<lambda>c. c \<noteq> 58) s;
          rest = dropWhile (\<lambda>c. c \<noteq> 58) s
      in case rest of
           [] \<Rightarrow> Inl ValueError
         | _ # ms \<Rightarrow>
             (case (hour_of hs, minute_of ms) of
                (Some h, Some m) \<Rightarrow> Inr (h, m)
              | _ \<Rightarrow> Inl ValueError))"

section \<open>The job queue\<close>

datatype callback = send_daily_digest_cb | send_event_reminder_cb

text \<open>The \<open>data\<close> dictionary of a reminder job.\<close>

record payload =
  p_title :: "pystr option"
  p_time :: "pystr option"
  p_description :: "pystr option"

text \<open>
  The arguments of one \<open>jq.run_daily\<close> call: the callback, \<open>time\<close> as hour and minute
  with its \<open>tzinfo\<close>, the tuple \<open>days\<close>, \<open>data\<close> and \<open>name\<close>. The indices in
  \<open>days\<close> are kept as the source passes them; \<open>run_daily_weekday\<close> below says on
  which day the queue runs each of them.
\<close>

record job =
  callback :: callback
  at_hour :: int
  at_minute :: int
  tzinfo :: pystr
  days :: "nat list"
  job_data :: "payload option"
  name :: pystr

text \<open>When \<open>days\<close> is not given, \<open>run_daily\<close> takes every day of the week.\<close>

definition all_days :: "nat list" where
  "all_days = [0, 1, 2, 3, 4, 5, 6]"

definition daily_digest_job :: "pystr \<Rightarrow> job" where
  "daily_digest_job tz =
     \<lparr>callback = send_daily_digest_cb, at_hour = 9, at_minute = 0, tzinfo = tz,
      days = all_days, job_data = None, name = ascii ''daily_digest''\<rparr>"

text \<open>
  The job queue is the one of python-telegram-bot, which is not part of the repository.
  The source builds the application with \<open>ApplicationBuilder\<close> and types its callbacks
  with \<open>ContextTypes\<close>, which exist from version 20 of the library on; from that
  version on the library documents the \<open>days\<close> of \<open>run_daily\<close> as 0 to 6 for Sunday
  to Saturday. \<open>run_daily_weekday d\<close> is the day on which the queue runs a job
  registered with the index \<open>d\<close> (from 0 to 6), as \<open>datetime.weekday()\<close> and the
  tables of the source count the days (Monday is 0): index 0 runs on Sunday (6), index 1
  on Monday (0), and so on to index 6 on Saturday (5).
\<close>

definition run_daily_weekday :: "nat \<Rightarrow> nat" where
  "run_daily_weekday d = (d + 6) mod 7"

text \<open>The days of the week on which a job runs, at its hour and minute in its zone.\<close>

definition runs_on :: "job \<Rightarrow> nat list" where
  "runs_on j = map run_daily_weekday (days j)"

text \<open>
  A recurring weekly instant as minutes since Monday 00:00, for a day of the week counted
  from Monday and a wall-clock hour and minute.
\<close>

definition week_minute :: "nat \<Rightarrow> int \<Rightarrow> int \<Rightarrow> int" where
  "week_minute wd h m = 1440 * int wd + 60 * h + m"

section \<open>Scheduler: \<open>schedule_jobs\<close>\<close>

text \<open>\<open>ev.get(key, default)\<close>.\<close>

definition get_or :: "pystr option \<Rightarrow> pystr \<Rightarrow> pystr" where
  "get_or v dflt = (case v of None \<Rightarrow> dflt | Some s \<Rightarrow> s)"

definition reminder_payload :: "event \<Rightarrow> payload" where
  "reminder_payload ev = \<lparr>p_title = title ev, p_time = time ev, p_description = description ev\<rparr>"

definition reminder_name :: "nat \<Rightarrow> event \<Rightarrow> pystr" where
  "reminder_name weekday_idx ev =
     ascii ''reminder_'' @ str_nat weekday_idx @ ascii ''_'' @ py_str (time ev)"

text \<open>
  The body of the \<open>try\<close> block of \<open>Lab2/bot.py\<close> for one event: \<open>Inl\<close> is the
  exception that leaves the block, \<open>Inr\<close> the job handed to \<open>jq.run_daily\<close>.
  A missing \<open>day\<close> is looked up as the empty string.
\<close>

definition reminder_job_lab2 :: "pystr \<Rightarrow> datetime \<Rightarrow> event \<Rightarrow> exn + job" where
  "reminder_job_lab2 tz now ev =
     (case ru_to_py_weekday (get_or (day ev) []) of
        Inl exc \<Rightarrow> Inl exc
      | Inr weekday_idx \<Rightarrow>
          (case strptime_HM (get_or (time ev) (ascii ''00:00'')) of
             Inl exc \<Rightarrow> Inl exc
           | Inr (h, m) \<Rightarrow>
               (let dt_dummy = now\<lparr>hour := h, minute := m\<rparr>;
                    remind_dt = minus_minutes dt_dummy 15
                in Inr \<lparr>callback = send_event_reminder_cb,
                        at_hour = hour remind_dt, at_minute = minute remind_dt,
                        tzinfo = tz, days = [weekday_idx],
                        job_data = Some (reminder_payload ev),
                        name = reminder_name weekday_idx ev\<rparr>)))"

text \<open>
  The same block of \<open>Lab3/bot.py\<close>: the table is written inline, and a missing
  \<open>day\<close> is looked up as Monday's label.
\<close>

definition reminder_job_lab3 :: "pystr \<Rightarrow> datetime \<Rightarrow> event \<Rightarrow> exn + job" where
  "reminder_job_lab3 tz now ev =
     (case map_of weekdays (get_or (day ev) Ponedelnik) of
        None \<Rightarrow> Inl KeyError
      | Some weekday_idx \<Rightarrow>
          (case strptime_HM (get_or (time ev) (ascii ''00:00'')) of
             Inl exc \<Rightarrow> Inl exc
           | Inr (h, m) \<Rightarrow>
               (let dt_dummy = now\<lparr>hour := h, minute := m\<rparr>;
                    remind_dt = minus_minutes dt_dummy 15
                in Inr \<lparr>callback = send_event_reminder_cb,
                        at_hour = hour remind_dt, at_minute = minute remind_dt,
                        tzinfo = tz, days = [weekday_idx],
                        job_data = Some (reminder_payload ev),
                        name = reminder_name weekday_idx ev\<rparr>)))"

text \<open>
  The \<open>for\<close> loop over the events, with its \<open>try\<close>/\<open>except Exception\<close>: a job is
  appended to the queue, or a warning is logged and the loop goes on.
\<close>

fun schedule_events ::
  "(event \<Rightarrow> exn + job) \<Rightarrow> event list \<Rightarrow> job list \<times> effect list \<Rightarrow> job list \<times> effect list" where
  "schedule_events body [] st = st"
| "schedule_events body (ev # evs) (jq, out) =
     (case body ev of
        Inr j \<Rightarrow> schedule_events body evs (jq @ [j], out)
      | Inl exc \<Rightarrow> schedule_events body evs (jq, out @ [LogWarning (ScheduleFailed ev exc)]))"

text \<open>
  \<open>schedule_jobs\<close> returns the jobs registered with the queue, in the order of
  registration, and what it logged. \<open>now\<close> is \<open>datetime.now(tz)\<close>.
\<close>

definition schedule_jobs_lab2 ::
  "(pystr \<Rightarrow> bool) \<Rightarrow> pystr option \<Rightarrow> fs \<Rightarrow> datetime \<Rightarrow> job list \<times> effect list" where
  "schedule_jobs_lab2 known tz_env f now =
     (let (tz, out0) = get_timezone_lab2 known tz_env;
          jq = [daily_digest_job tz];
          (data, out1) = load_data f
      in schedule_events (reminder_job_lab2 tz now) (get_events data) (jq, out0 @ out1))"

definition schedule_jobs_lab3 ::
  "(pystr \<Rightarrow> bool) \<Rightarrow> pystr option \<Rightarrow> fs \<Rightarrow> datetime \<Rightarrow> job list \<times> effect list" where
  "schedule_jobs_lab3 known tz_env f now =
     (let (tz, out0) = get_timezone_lab3 known tz_env;
          jq = [daily_digest_job tz];
          (data, out1) = load_data f
      in schedule_events (reminder_job_lab3 tz now) (get_events data) (jq, out0 @ out1))"

section \<open>Notifier: \<open>send_daily_digest\<close> and \<open>send_event_reminder\<close>\<close>

text \<open>
  The loop over the subscribers, which is the same in both notifiers and in both files.
  \<open>ok chat_id\<close> says whether \<open>context.bot.send_message\<close> returns for that chat; when
  it raises, the exception is caught and a warning is logged. \<open>SendMessage\<close> is a
  message that was delivered.
\<close>

fun send_all :: "(int \<Rightarrow> bool) \<Rightarrow> (int \<Rightarrow> log_msg) \<Rightarrow> pystr \<Rightarrow> int list \<Rightarrow> effect list" where
  "send_all ok warn text [] = []"
| "send_all ok warn text (chat_id # rest) =
     (if ok chat_id then SendMessage chat_id text else LogWarning (warn chat_id))
     # send_all ok warn text rest"

text \<open>
  \<open>send_daily_digest\<close> of the two files: the same code, each with the
  \<open>get_timezone\<close> of its file.
\<close>

definition send_daily_digest_lab2 ::
  "(pystr \<Rightarrow> bool) \<Rightarrow> pystr option \<Rightarrow> fs \<Rightarrow> datetime \<Rightarrow> (int \<Rightarrow> bool) \<Rightarrow> effect list" where
  "send_daily_digest_lab2 known tz_env f now ok =
     (let (tz, out0) = get_timezone_lab2 known tz_env;
          today_ru = weekday_ru now;
          (data, out1) = load_data f;
          msg = map_of (get_digests data) today_ru
      in case msg of
           None \<Rightarrow> out0 @ out1
         | Some m \<Rightarrow>
             if m = [] then out0 @ out1
             else out0 @ out1 @ send_all ok DigestSendFailed m (get_subscribers data))"

definition send_daily_digest_lab3 ::
  "(pystr \<Rightarrow> bool) \<Rightarrow> pystr option \<Rightarrow> fs \<Rightarrow> datetime \<Rightarrow> (int \<Rightarrow> bool) \<Rightarrow> effect list" where
  "send_daily_digest_lab3 known tz_env f now ok =
     (let (tz, out0) = get_timezone_lab3 known tz_env;
          today_ru = weekday_ru now;
          (data, out1) = load_data f;
          msg = map_of (get_digests data) today_ru
      in case msg of
           None \<Rightarrow> out0 @ out1
         | Some m \<Rightarrow>
             if m = [] then out0 @ out1
             else out0 @ out1 @ send_all ok DigestSendFailed m (get_subscribers data))"

definition reminder_text :: "payload \<Rightarrow> pystr" where
  "reminder_text p =
     [1053, 1072, 1087, 1086, 1084, 1080, 1085, 1072, 1085, 1080, 1077, 58, 32]
     @ py_str (p_title p) @ [32, 1074, 32] @ py_str (p_time p) @ [46, 32]
     @ py_str (p_description p)"

text \<open>\<open>context.job.data or {}\<close>: every key of the empty dictionary reads as \<open>None\<close>.\<close>

definition data_or_empty :: "job \<Rightarrow> payload" where
  "data_or_empty job =
     (case job_data job of
        None \<Rightarrow> \<lparr>p_title = None, p_time = None, p_description = None\<rparr>
      | Some p \<Rightarrow> p)"

text \<open>\<open>job\<close> is \<open>context.job\<close>, the job that fired.\<close>

definition send_event_reminder :: "fs \<Rightarrow> (int \<Rightarrow> bool) \<Rightarrow> job \<Rightarrow> effect list" where
  "send_event_reminder f ok job =
     (let (data, out1) = load_data f;
          events_data = get_events data
      in if events_data = [] then out1
         else
           (let job_data = data_or_empty job;
                text = reminder_text job_data
            in out1 @ send_all ok ReminderSendFailed text (get_subscribers data)))"

section \<open>The \<open>/start\<close> handler\<close>

text \<open>
  Of the incoming update the handler reads the first name of the user and the chat
  identifier, each of which may be absent.
\<close>

record update =
  effective_user :: "pystr option"
  effective_chat :: "int option"

definition greeting :: "pystr \<Rightarrow> pystr" where
  "greeting user_first =
     [1055, 1088, 1080, 1074, 1077, 1090, 44, 32] @ user_first
     @ [33, 32, 1071, 32, 1073, 1086, 1090, 32, 1082, 1086, 1084, 1087, 1072, 1085, 1080, 1080, 32]
     @ bold [1058, 1088, 1072, 1083, 1072, 1083, 1077, 1083, 1086, 1058, 1088, 1072, 1083,
             1072, 1083, 1072]
     @ [10]
     @ [1055, 1086, 1084, 1086, 1075, 1091, 32, 1089, 32, 1080, 1085, 1092, 1086, 1088, 1084,
        1072, 1094, 1080, 1077, 1081, 32, 1086, 32, 1082, 1086, 1084, 1087, 1072, 1085, 1080,
        1080, 44, 32, 1082, 1086, 1085, 1090, 1072, 1082, 1090, 1072, 1093, 44, 32, 1089, 1086,
        1073, 1099, 1090, 1080, 1103, 1093, 32, 1080, 32, 1087, 1088, 1080, 1096, 1083, 1102,
        32, 1076, 1072, 1081, 1076, 1078, 1077, 1089, 1090, 46]
     @ [10]
     @ [1055, 1086, 1089, 1084, 1086, 1090, 1088, 1080, 32] @ code (ascii ''/help'')
     @ [32, 1076, 1083, 1103, 32, 1089, 1087, 1080, 1089, 1082, 1072, 32, 1082, 1086, 1084,
        1072, 1085, 1076, 46]"

definition start :: "update \<Rightarrow> fs \<Rightarrow> fs \<times> effect list" where
  "start upd f =
     (let user_first = (case effective_user upd of None \<Rightarrow> [] | Some n \<Rightarrow> n);
          (data, out1) = load_data f;
          subs = get_subscribers data;
          (f', out2) =
            (case effective_chat upd of
               None \<Rightarrow> (f, [])
             | Some chat_id \<Rightarrow>
                 if chat_id \<notin> set subs
                 then save_data (data\<lparr>subscribers := Some (subs @ [chat_id])\<rparr>) f
                 else (f, []))
      in (f', out1 @ out2 @ [Reply (greeting user_first)]))"

section \<open>Well-formed events\<close>

text \<open>
  An event is well formed when its \<open>day\<close> is one of the seven labels and its \<open>time\<close>
  parses as \<open>%H:%M\<close>.
\<close>

definition recognized_day :: "event \<Rightarrow> bool" where
  "recognized_day ev = (case day ev of None \<Rightarrow> False | Some label \<Rightarrow> label \<in> set weekday_names)"

definition parsable_time :: "event \<Rightarrow> bool" where
  "parsable_time ev = (case time ev of None \<Rightarrow> False | Some s \<Rightarrow> isl (strptime_HM s) = False)"

definition well_formed :: "event \<Rightarrow> bool" where
  "well_formed ev = (recognized_day ev \<and> parsable_time ev)"

section \<open>Sample inputs\<close>

definition store_of :: "document \<Rightarrow> fs" where
  "store_of d = \<lparr>data_file = Some (Json d), tmp_file = None, writable = True\<rparr>"

definition doc_of_events :: "event list \<Rightarrow> document" where
  "doc_of_events evs = \<lparr>subscribers = None, events = Some evs, digests = None, others = []\<rparr>"

definition friday_0910 :: event where
  "friday_0910 = \<lparr>day = Some Pyatnitsa, time = Some (ascii ''09:10''),
                   title = Some (ascii ''Demo''), description = Some (ascii ''Weekly demo'')\<rparr>"

definition monday_0005 :: event where
  "monday_0005 = \<lparr>day = Some Ponedelnik, time = Some (ascii ''00:05''),
                   title = Some (ascii ''Deploy''), description = Some (ascii ''Night deploy'')\<rparr>"


definition funday_1000 :: event where
  "funday_1000 = \<lparr>day = Some (ascii ''Funday''), time = Some (ascii ''10:00''),
                   title = Some (ascii ''Party''), description = None\<rparr>"

definition friday_2599 :: event where
  "friday_2599 = \<lparr>day = Some Pyatnitsa, time = Some (ascii ''25:99''),
                   title = Some (ascii ''Late''), description = None\<rparr>"

definition mixed_events :: "event list" where
  "mixed_events = [funday_1000, friday_0910, friday_2599, monday_0005]"

text \<open>2 November 2026, a Monday, at 13:07.\<close>

definition monday_noon :: datetime where
  "monday_noon = \<lparr>ordinal = 739922, hour = 13, minute = 7\<rparr>"

definition any_zone :: "pystr \<Rightarrow> bool" where
  "any_zone tz_name = True"

definition always_ok :: "int \<Rightarrow> bool" where
  "always_ok chat_id = True"

definition all_but_111 :: "int \<Rightarrow> bool" where
  "all_but_111 chat_id = (if chat_id = 111 then False else True)"

definition hi_doc :: document where
  "hi_doc = \<lparr>subscribers = Some [111, 222], events = Some [friday_0910],
             digests = Some [(Ponedelnik, ascii ''Hi'')], others = []\<rparr>"

definition no_events_doc :: document where
  "no_events_doc = \<lparr>subscribers = Some [111, 222], events = Some [],
                    digests = Some [(Ponedelnik, ascii ''Hi'')], others = []\<rparr>"

definition demo_job :: job where
  "demo_job =
     \<lparr>callback = send_event_reminder_cb, at_hour = 8, at_minute = 55,
      tzinfo = ascii ''Europe/Moscow'', days = [4],
      job_data = Some (reminder_payload friday_0910),
      name = reminder_name 4 friday_0910\<rparr>"

definition start_from :: "int \<Rightarrow> update" where
  "start_from chat_id = \<lparr>effective_user = Some (ascii ''Ann''), effective_chat = Some chat_id\<rparr>"






section \<open>Auxiliary facts\<close>

lemma decimal_range: "decimal c = Some v \<Longrightarrow> 0 \<le> v \<and> v < 10"
  by (auto simp: decimal_def find_Some_iff split: option.splits)

lemma decimal_ascii: "48 \<le> c \<Longrightarrow> c \<le> 57 \<Longrightarrow> decimal c = Some (int c - 48)"
  by (simp add: decimal_def decimal_zeros_def)

lemma hour_of_range: "hour_of cs = Some h \<Longrightarrow> 0 \<le> h \<and> h < 24"
  by (auto simp: hour_of_def split: list.splits if_splits option.splits dest: decimal_range)

lemma minute_of_range: "minute_of cs = Some m \<Longrightarrow> 0 \<le> m \<and> m < 60"
  by (auto simp: minute_of_def split: list.splits if_splits option.splits dest: decimal_range)

lemma strptime_ascii:
  "strptime_HM (ascii ''09:10'') = Inr (9, 10)"
  "strptime_HM (ascii ''00:05'') = Inr (0, 5)"
  "strptime_HM (ascii ''10:00'') = Inr (10, 0)"
  "strptime_HM (ascii ''25:99'') = Inl ValueError"
  by (simp_all add: strptime_HM_def ascii_def hour_of_def minute_of_def decimal_ascii)

lemma strptime_arabic_indic: "strptime_HM [49, 1634, 58, 51, 1632] = Inr (12, 30)"
  by (simp add: strptime_HM_def hour_of_def minute_of_def decimal_def decimal_zeros_def)

lemma strptime_HM_range:
  assumes "strptime_HM s = Inr (h, m)"
  shows "0 \<le> h \<and> h < 24 \<and> 0 \<le> m \<and> m < 60"
  using assms
  by (auto simp: strptime_HM_def Let_def split: list.splits option.splits
           dest: hour_of_range minute_of_range)

lemma replace_fields:
  "ordinal (now\<lparr>hour := h, minute := m\<rparr>) = ordinal now"
  "hour (now\<lparr>hour := h, minute := m\<rparr>) = h"
  "minute (now\<lparr>hour := h, minute := m\<rparr>) = m"
  by simp_all

lemma minus_minutes_same_day:
  assumes "0 \<le> h" "h < 24" "0 \<le> m" "m < 60" "15 \<le> 60 * h + m"
  shows "minus_minutes (now\<lparr>hour := h, minute := m\<rparr>) 15 =
         \<lparr>ordinal = ordinal now, hour = (60 * h + m - 15) div 60,
          minute = (60 * h + m - 15) mod 60\<rparr>"
proof -
  define t where "t = 60 * h + m - 15"
  have t0: "0 \<le> t" and lt: "t < 1440" using assms by (simp_all add: t_def)
  have d: "t div 1440 = 0" and md: "t mod 1440 = t" using t0 lt by simp_all
  show ?thesis
    unfolding minus_minutes_def Let_def replace_fields t_def[symmetric] d md
    by simp
qed

lemma int_mod_borrow:
  fixes m :: int
  assumes "0 \<le> m" "m < 15"
  shows "(m - 15) div 1440 = -1" "(m - 15) mod 1440 = m + 1425"
        "(m + 1425) div 60 = 23" "(m + 1425) mod 60 = m + 45"
proof -
  show "(m - 15) div 1440 = -1" using assms by (simp add: div_pos_neg_trivial)
  have "(m - 15) mod 1440 = (m - 15 + 1440) mod 1440" by (simp only: mod_add_self2)
  also have "m - 15 + 1440 = m + 1425" by simp
  also have "(m + 1425) mod 1440 = m + 1425"
    using assms by (intro mod_pos_pos_trivial) simp_all
  finally show "(m - 15) mod 1440 = m + 1425" .
  have "m + 1425 = (m + 45) + 23 * 60" by simp
  also have "\<dots> div 60 = (m + 45) div 60 + 23" by (simp only: div_mult_self1)
  also have "(m + 45) div 60 = 0" using assms by simp
  finally show "(m + 1425) div 60 = 23" by simp
  have "m + 1425 = (m + 45) + 23 * 60" by simp
  also have "\<dots> mod 60 = (m + 45) mod 60" by (simp only: mod_mult_self1)
  also have "\<dots> = m + 45" using assms by simp
  finally show "(m + 1425) mod 60 = m + 45" .
qed

lemma minus_minutes_previous_day:
  assumes "0 \<le> h" "0 \<le> m" "60 * h + m < 15"
  shows "minus_minutes (now\<lparr>hour := h, minute := m\<rparr>) 15 =
         \<lparr>ordinal = ordinal now - 1, hour = 23, minute = m + 45\<rparr>"
proof -
  have h0: "h = 0" using assms by simp
  have m15: "m < 15" using assms by simp
  have t: "60 * h + m - 15 = m - 15" using h0 by simp
  show ?thesis
    unfolding minus_minutes_def Let_def replace_fields t
      int_mod_borrow[OF assms(2) m15]
    by simp
qed

lemma send_all_map:
  "send_all ok warn text cs =
   map (\<lambda>c. if ok c then SendMessage c text else LogWarning (warn c)) cs"
  by (induction cs) simp_all

lemma schedule_events_jobs:
  "map Inr (fst (schedule_events body evs (jq, out))) =
   map Inr jq @ filter (\<lambda>r. \<not> isl r) (map body evs)"
proof (induction evs arbitrary: jq out)
  case Nil
  then show ?case by simp
next
  case (Cons ev evs)
  show ?case
  proof (cases "body ev")
    case (Inl exc)
    then show ?thesis using Cons.IH[of jq] by simp
  next
    case (Inr j)
    then show ?thesis using Cons.IH[of "jq @ [j]"] by simp
  qed
qed

lemma schedule_events_log:
  "snd (schedule_events body evs (jq, out)) =
   out @ concat (map (\<lambda>ev. case body ev of
                              Inl exc \<Rightarrow> [LogWarning (ScheduleFailed ev exc)]
                            | Inr j \<Rightarrow> []) evs)"
proof (induction evs arbitrary: jq out)
  case Nil
  then show ?case by simp
next
  case (Cons ev evs)
  show ?case
  proof (cases "body ev")
    case (Inl exc)
    then show ?thesis using Cons.IH[of jq] by simp
  next
    case (Inr j)
    then show ?thesis using Cons.IH[of "jq @ [j]"] by simp
  qed
qed

lemma schedule_events_member:
  assumes "ev \<in> set evs" "body ev = Inr j"
  shows "j \<in> set (fst (schedule_events body evs (jq, out)))"
proof -
  have "Inr j \<in> set (filter (\<lambda>r. \<not> isl r) (map body evs))"
    using assms by force
  then have "(Inr j :: exn + job) \<in> set (map Inr (fst (schedule_events body evs (jq, out))))"
    unfolding schedule_events_jobs by simp
  then show ?thesis by auto
qed


lemma schedule_events_hd:
  "jq \<noteq> [] \<Longrightarrow> fst (schedule_events body evs (jq, out)) \<noteq> [] \<and>
     hd (fst (schedule_events body evs (jq, out))) = hd jq"
proof (induction evs arbitrary: jq out)
  case Nil
  then show ?case by simp
next
  case (Cons ev evs)
  show ?case
  proof (cases "body ev")
    case (Inl exc)
    then show ?thesis using Cons.IH[of jq] Cons.prems by simp
  next
    case (Inr j)
    then show ?thesis using Cons.IH[of "jq @ [j]"] Cons.prems by simp
  qed
qed

lemma load_data_Json: "data_file f = Some (Json d) \<Longrightarrow> load_data f = (d, [])"
  by (simp add: load_data_def)

lemma subscribers_loaded:
  assumes "chat_id \<in> set (get_subscribers (fst (load_data f)))"
  shows "\<exists>d. data_file f = Some (Json d)"
  using assms
  by (auto simp: load_data_def empty_document_def get_subscribers_def
           split: option.splits file_content.splits)

lemma start_known_chat_no_save_aux:
  assumes "effective_chat upd = Some chat_id"
    and "chat_id \<in> set (get_subscribers (fst (load_data f)))"
  shows "start upd f =
         (f, [Reply (greeting (case effective_user upd of None \<Rightarrow> [] | Some n \<Rightarrow> n))])"
proof -
  obtain d where d: "data_file f = Some (Json d)"
    using subscribers_loaded[OF assms(2)] by blast
  have l: "load_data f = (d, [])" by (rule load_data_Json[OF d])
  have m: "chat_id \<in> set (get_subscribers d)" using assms(2) by (simp add: l)
  show ?thesis by (simp add: start_def l assms(1) m Let_def)
qed



section \<open>Store\<close>

text \<open>
  \<open>save_data\<close> writes a temporary file and renames it onto the path \<open>load_data\<close>
  reads, so for the handlers a save whose write succeeds is read back. Whether the
  text written is read back as the document is shown on the JSON text, in the last
  section.
\<close>

lemma successful_save_is_read_back:
  "writable f \<Longrightarrow> load_data (fst (save_data D f)) = (D, [])"
  by (simp add: save_data_def load_data_def Let_def)

section \<open>Subscribing\<close>

text \<open>
  C10: when the chat identifier of a \<open>/start\<close> invocation is already in the stored
  subscriber list, the handler performs no save: the files are left as they were, no
  \<open>Replaced\<close> effect and no log record is produced, and the only effect is the
  greeting reply.
\<close>

theorem start_known_chat_performs_no_save:
  assumes "effective_chat upd = Some chat_id"
    and "chat_id \<in> set (get_subscribers (fst (load_data f)))"
  shows "start upd f =
         (f, [Reply (greeting (case effective_user upd of None \<Rightarrow> [] | Some n \<Rightarrow> n))])"
  using assms by (rule start_known_chat_no_save_aux)

theorem start_known_chat_performs_no_save_witness:
  "effective_chat (start_from 222) = Some 222 \<and>
   222 \<in> set (get_subscribers (fst (load_data (store_of hi_doc)))) \<and>
   start (start_from 222) (store_of hi_doc) = (store_of hi_doc, [Reply (greeting (ascii ''Ann''))])"
proof -
  have a: "effective_chat (start_from 222) = Some 222" by (simp add: start_from_def)
  have b: "222 \<in> set (get_subscribers (fst (load_data (store_of hi_doc))))"
    by (simp add: load_data_def store_of_def hi_doc_def get_subscribers_def)
  show ?thesis
    using start_known_chat_performs_no_save [OF a b] a b by (simp add: start_from_def)
qed



section \<open>Scheduler\<close>

lemma get_timezone_same_zone:
  "fst (get_timezone_lab3 known tz_env) = fst (get_timezone_lab2 known tz_env)"
  by (simp add: get_timezone_lab2_def get_timezone_lab3_def Let_def)

lemma get_timezone_known:
  "known z \<Longrightarrow> get_timezone_lab2 known (Some z) = (z, [])"
  "known z \<Longrightarrow> get_timezone_lab3 known (Some z) = (z, [])"
  by (simp_all add: get_timezone_lab2_def get_timezone_lab3_def)

lemma get_timezone_any_zone:
  "get_timezone_lab2 any_zone None = (ascii ''Europe/Moscow'', [])"
  "get_timezone_lab3 any_zone None = (ascii ''Europe/Moscow'', [])"
  by (simp_all add: get_timezone_lab2_def get_timezone_lab3_def any_zone_def)

text \<open>
  The daily digest job is registered first, at 09:00 with the resolved zone as its
  \<open>tzinfo\<close> and no restriction of the days; a configured zone the database knows is
  the one resolved.
\<close>

lemma daily_digest_job_registered_first:
  "hd (fst (schedule_jobs_lab2 known tz_env f now)) =
     daily_digest_job (fst (get_timezone_lab2 known tz_env))"
  "hd (fst (schedule_jobs_lab3 known tz_env f now)) =
     daily_digest_job (fst (get_timezone_lab3 known tz_env))"
  by (simp_all add: schedule_jobs_lab2_def schedule_jobs_lab3_def split_def Let_def
        schedule_events_hd)

lemma weekdays_lookup:
  assumes "map_of weekdays label = Some idx"
  shows "idx < 7 \<and> weekday_names ! idx = label"
  using assms
  by (auto simp: weekdays_def weekday_names_def split: if_splits)

lemma schedule_jobs_lab2_unfold:
  "schedule_jobs_lab2 known tz_env f now =
   schedule_events (reminder_job_lab2 (fst (get_timezone_lab2 known tz_env)) now)
     (get_events (fst (load_data f)))
     ([daily_digest_job (fst (get_timezone_lab2 known tz_env))],
      snd (get_timezone_lab2 known tz_env) @ snd (load_data f))"
  by (simp add: schedule_jobs_lab2_def split_def Let_def)

lemma schedule_jobs_lab3_unfold:
  "schedule_jobs_lab3 known tz_env f now =
   schedule_events (reminder_job_lab3 (fst (get_timezone_lab2 known tz_env)) now)
     (get_events (fst (load_data f)))
     ([daily_digest_job (fst (get_timezone_lab2 known tz_env))],
      snd (get_timezone_lab3 known tz_env) @ snd (load_data f))"
  by (simp add: schedule_jobs_lab3_def split_def Let_def get_timezone_same_zone)


lemma reminder_job_lab3_eq_lab2:
  assumes "day ev \<noteq> None"
  shows "reminder_job_lab3 tz now ev = reminder_job_lab2 tz now ev"
  using assms
  by (auto simp: reminder_job_lab3_def reminder_job_lab2_def ru_to_py_weekday_def get_or_def
           split: option.splits)

lemma reminder_job_lab2_parsed:
  assumes "day ev = Some label" "map_of weekdays label = Some idx"
    and "time ev = Some s" "strptime_HM s = Inr (h, m)"
  shows "reminder_job_lab2 tz now ev =
         Inr \<lparr>callback = send_event_reminder_cb,
              at_hour = hour (minus_minutes (now\<lparr>hour := h, minute := m\<rparr>) 15),
              at_minute = minute (minus_minutes (now\<lparr>hour := h, minute := m\<rparr>) 15),
              tzinfo = tz, days = [idx],
              job_data = Some (reminder_payload ev),
              name = reminder_name idx ev\<rparr>"
  using assms
  by (simp add: reminder_job_lab2_def ru_to_py_weekday_def get_or_def Let_def)

lemma index_cases:
  assumes "idx < (7::nat)"
  shows "idx = 0 \<or> idx = 1 \<or> idx = 2 \<or> idx = 3 \<or> idx = 4 \<or> idx = 5 \<or> idx = 6"
  using assms by arith

lemma run_daily_weekday_is_day_before:
  assumes "idx < 7"
  shows "run_daily_weekday idx \<noteq> idx"
    and "(week_minute (run_daily_weekday idx) hh mm - week_minute idx hh mm + 1440) mod 10080 = 0"
  using index_cases[OF assms]
  by (auto simp: run_daily_weekday_def week_minute_def)

lemma friday_lookup: "map_of weekdays Pyatnitsa = Some 4"
  by (simp add: weekdays_def Ponedelnik_def Vtornik_def Sreda_def Chetverg_def Pyatnitsa_def)

lemma monday_lookup: "map_of weekdays Ponedelnik = Some 0"
  by (simp add: weekdays_def)

lemma load_store_of: "load_data (store_of d) = (d, [])"
  by (simp add: load_data_def store_of_def)

text \<open>
  C9: an event whose time is 00:15 or later should get its reminder on its own weekday,
  15 minutes before its time. Both files register the job at the event's time minus 15
  minutes with \<open>days\<close> set to the index of the event's label in the source's table,
  where Monday is 0. The queue counts \<open>days\<close> from Sunday, so the job runs on the day
  before the event's weekday: the reminder of a Friday 09:10 event runs on Thursday at
  08:55, 24 hours and 15 minutes before the event.
\<close>

theorem reminder_runs_the_day_before_the_event:
  assumes "ev \<in> set (get_events (fst (load_data f)))"
    and "day ev = Some label" and "map_of weekdays label = Some idx"
    and "time ev = Some s" and "strptime_HM s = Inr (h, m)"
    and "15 \<le> 60 * h + m"
  shows "\<lparr>callback = send_event_reminder_cb, at_hour = (60 * h + m - 15) div 60, at_minute = (60 * h + m - 15) mod 60,
         tzinfo = fst (get_timezone_lab2 known tz_env), days = [idx],
         job_data = Some (reminder_payload ev), name = reminder_name idx ev\<rparr>
         \<in> set (fst (schedule_jobs_lab2 known tz_env f now))
       \<and> \<lparr>callback = send_event_reminder_cb, at_hour = (60 * h + m - 15) div 60, at_minute = (60 * h + m - 15) mod 60,
         tzinfo = fst (get_timezone_lab2 known tz_env), days = [idx],
         job_data = Some (reminder_payload ev), name = reminder_name idx ev\<rparr>
         \<in> set (fst (schedule_jobs_lab3 known tz_env f now))
       \<and> weekday_names ! idx = label
       \<and> runs_on \<lparr>callback = send_event_reminder_cb, at_hour = (60 * h + m - 15) div 60, at_minute = (60 * h + m - 15) mod 60,
         tzinfo = fst (get_timezone_lab2 known tz_env), days = [idx],
         job_data = Some (reminder_payload ev), name = reminder_name idx ev\<rparr>
         = [run_daily_weekday idx]
       \<and> run_daily_weekday idx \<noteq> idx
       \<and> (week_minute (run_daily_weekday idx) ((60 * h + m - 15) div 60) ((60 * h + m - 15) mod 60)
            - (week_minute idx h m - 15) + 1440) mod 10080 = 0"
proof -
  let ?tz = "fst (get_timezone_lab2 known tz_env)"
  let ?j = "\<lparr>callback = send_event_reminder_cb, at_hour = (60 * h + m - 15) div 60, at_minute = (60 * h + m - 15) mod 60,
         tzinfo = ?tz, days = [idx],
         job_data = Some (reminder_payload ev), name = reminder_name idx ev\<rparr>"
  have r: "0 \<le> h \<and> h < 24 \<and> 0 \<le> m \<and> m < 60"
    by (rule strptime_HM_range[OF assms(5)])
  have mm: "minus_minutes (now\<lparr>hour := h, minute := m\<rparr>) 15 =
            \<lparr>ordinal = ordinal now, hour = (60 * h + m - 15) div 60,
             minute = (60 * h + m - 15) mod 60\<rparr>"
    using r assms(6) by (intro minus_minutes_same_day) simp_all
  have b2: "reminder_job_lab2 ?tz now ev = Inr ?j"
    unfolding reminder_job_lab2_parsed[OF assms(2) assms(3) assms(4) assms(5)] mm by simp
  have b3: "reminder_job_lab3 ?tz now ev = Inr ?j"
    using b2 assms(2) by (simp add: reminder_job_lab3_eq_lab2)
  have m2: "?j \<in> set (fst (schedule_jobs_lab2 known tz_env f now))"
    unfolding schedule_jobs_lab2_unfold
    using assms(1) b2
    by (rule schedule_events_member[where body = "reminder_job_lab2 ?tz now"])
  have m3: "?j \<in> set (fst (schedule_jobs_lab3 known tz_env f now))"
    unfolding schedule_jobs_lab3_unfold
    using assms(1) b3
    by (rule schedule_events_member[where body = "reminder_job_lab3 ?tz now"])
  have i: "idx < 7" and n: "weekday_names ! idx = label"
    using weekdays_lookup[OF assms(3)] by simp_all
  have ro: "runs_on ?j = [run_daily_weekday idx]" by (simp add: runs_on_def)
  have e: "week_minute (run_daily_weekday idx) ((60 * h + m - 15) div 60) ((60 * h + m - 15) mod 60)
           - (week_minute idx h m - 15) + 1440
         = week_minute (run_daily_weekday idx) h m - week_minute idx h m + 1440"
    by (simp add: week_minute_def)
  have w: "(week_minute (run_daily_weekday idx) ((60 * h + m - 15) div 60) ((60 * h + m - 15) mod 60)
            - (week_minute idx h m - 15) + 1440) mod 10080 = 0"
    unfolding e by (rule run_daily_weekday_is_day_before(2)[OF i])
  show ?thesis
    using m2 m3 n ro run_daily_weekday_is_day_before(1)[OF i] w by blast
qed

theorem reminder_runs_the_day_before_the_event_witness:
  "friday_0910 \<in> set (get_events (fst (load_data (store_of (doc_of_events [friday_0910]))))) \<and>
   day friday_0910 = Some Pyatnitsa \<and> map_of weekdays Pyatnitsa = Some 4 \<and>
   time friday_0910 = Some (ascii ''09:10'') \<and> strptime_HM (ascii ''09:10'') = Inr (9, 10) \<and>
   (15::int) \<le> 60 * 9 + 10 \<and>
   \<lparr>callback = send_event_reminder_cb, at_hour = 8, at_minute = 55,
    tzinfo = ascii ''Europe/Moscow'', days = [4],
    job_data = Some (reminder_payload friday_0910), name = reminder_name 4 friday_0910\<rparr>
     \<in> set (fst (schedule_jobs_lab2 any_zone None (store_of (doc_of_events [friday_0910]))
                  monday_noon)) \<and>
   \<lparr>callback = send_event_reminder_cb, at_hour = 8, at_minute = 55,
    tzinfo = ascii ''Europe/Moscow'', days = [4],
    job_data = Some (reminder_payload friday_0910), name = reminder_name 4 friday_0910\<rparr>
     \<in> set (fst (schedule_jobs_lab3 any_zone None (store_of (doc_of_events [friday_0910]))
                  monday_noon)) \<and>
   weekday_names ! 4 = Pyatnitsa \<and>
   runs_on \<lparr>callback = send_event_reminder_cb, at_hour = 8, at_minute = 55,
    tzinfo = ascii ''Europe/Moscow'', days = [4],
    job_data = Some (reminder_payload friday_0910), name = reminder_name 4 friday_0910\<rparr>
     = [3] \<and>
   weekday_names ! 3 = Chetverg"
proof -
  have a: "friday_0910 \<in> set (get_events (fst (load_data (store_of (doc_of_events [friday_0910])))))"
    by (simp add: load_store_of doc_of_events_def get_events_def)
  have b: "day friday_0910 = Some Pyatnitsa" by (simp add: friday_0910_def)
  have c: "time friday_0910 = Some (ascii ''09:10'')" by (simp add: friday_0910_def)
  have d: "(15::int) \<le> 60 * 9 + 10" by simp
  have r: "run_daily_weekday 4 = 3" by (simp add: run_daily_weekday_def)
  have n: "weekday_names ! 3 = Chetverg" by (simp add: weekday_names_def)
  show ?thesis
    using reminder_runs_the_day_before_the_event
            [OF a b friday_lookup c strptime_ascii(1) d, of any_zone None monday_noon]
          a b c friday_lookup strptime_ascii(1) n
    by (simp add: get_timezone_any_zone r)
qed

text \<open>
  C1: for every event whose day is one of the seven labels and whose time parses to a
  clock time before 00:15, both files register the reminder at 23:(45 + minute), not at
  00:00, with \<open>days\<close> set to the index of the event's label in the source's table. The
  queue counts \<open>days\<close> from Sunday, so the job runs on the weekday before the event's,
  which is 15 minutes before the event: the reminder of a Monday 00:05 event runs on
  Sunday at 23:50.
\<close>

theorem early_event_reminder_runs_on_previous_weekday:
  assumes "ev \<in> set (get_events (fst (load_data f)))"
    and "day ev = Some label" and "map_of weekdays label = Some idx"
    and "time ev = Some s" and "strptime_HM s = Inr (h, m)"
    and "60 * h + m < 15"
  shows "\<lparr>callback = send_event_reminder_cb, at_hour = 23, at_minute = m + 45,
         tzinfo = fst (get_timezone_lab2 known tz_env), days = [idx],
         job_data = Some (reminder_payload ev), name = reminder_name idx ev\<rparr>
         \<in> set (fst (schedule_jobs_lab2 known tz_env f now))
       \<and> \<lparr>callback = send_event_reminder_cb, at_hour = 23, at_minute = m + 45,
         tzinfo = fst (get_timezone_lab2 known tz_env), days = [idx],
         job_data = Some (reminder_payload ev), name = reminder_name idx ev\<rparr>
         \<in> set (fst (schedule_jobs_lab3 known tz_env f now))
       \<and> weekday_names ! idx = label
       \<and> runs_on \<lparr>callback = send_event_reminder_cb, at_hour = 23, at_minute = m + 45,
         tzinfo = fst (get_timezone_lab2 known tz_env), days = [idx],
         job_data = Some (reminder_payload ev), name = reminder_name idx ev\<rparr>
         = [run_daily_weekday idx]
       \<and> run_daily_weekday idx \<noteq> idx
       \<and> (week_minute (run_daily_weekday idx) 23 (m + 45) - (week_minute idx h m - 15))
            mod 10080 = 0"
proof -
  let ?tz = "fst (get_timezone_lab2 known tz_env)"
  let ?j = "\<lparr>callback = send_event_reminder_cb, at_hour = 23, at_minute = m + 45,
         tzinfo = ?tz, days = [idx],
         job_data = Some (reminder_payload ev), name = reminder_name idx ev\<rparr>"
  have r: "0 \<le> h \<and> h < 24 \<and> 0 \<le> m \<and> m < 60"
    by (rule strptime_HM_range[OF assms(5)])
  have h0: "h = 0" using r assms(6) by simp
  have mm: "minus_minutes (now\<lparr>hour := h, minute := m\<rparr>) 15 =
            \<lparr>ordinal = ordinal now - 1, hour = 23, minute = m + 45\<rparr>"
    using r assms(6) by (intro minus_minutes_previous_day) simp_all
  have b2: "reminder_job_lab2 ?tz now ev = Inr ?j"
    unfolding reminder_job_lab2_parsed[OF assms(2) assms(3) assms(4) assms(5)] mm by simp
  have b3: "reminder_job_lab3 ?tz now ev = Inr ?j"
    using b2 assms(2) by (simp add: reminder_job_lab3_eq_lab2)
  have m2: "?j \<in> set (fst (schedule_jobs_lab2 known tz_env f now))"
    unfolding schedule_jobs_lab2_unfold
    using assms(1) b2
    by (rule schedule_events_member[where body = "reminder_job_lab2 ?tz now"])
  have m3: "?j \<in> set (fst (schedule_jobs_lab3 known tz_env f now))"
    unfolding schedule_jobs_lab3_unfold
    using assms(1) b3
    by (rule schedule_events_member[where body = "reminder_job_lab3 ?tz now"])
  have i: "idx < 7" and n: "weekday_names ! idx = label"
    using weekdays_lookup[OF assms(3)] by simp_all
  have ro: "runs_on ?j = [run_daily_weekday idx]" by (simp add: runs_on_def)
  have e: "week_minute (run_daily_weekday idx) 23 (m + 45) - (week_minute idx h m - 15)
         = week_minute (run_daily_weekday idx) 0 0 - week_minute idx 0 0 + 1440"
    by (simp add: week_minute_def h0)
  have w: "(week_minute (run_daily_weekday idx) 23 (m + 45) - (week_minute idx h m - 15))
            mod 10080 = 0"
    unfolding e by (rule run_daily_weekday_is_day_before(2)[OF i])
  show ?thesis
    using m2 m3 n ro run_daily_weekday_is_day_before(1)[OF i] w by blast
qed

theorem early_event_reminder_runs_on_previous_weekday_witness:
  "monday_0005 \<in> set (get_events (fst (load_data (store_of (doc_of_events [monday_0005]))))) \<and>
   day monday_0005 = Some Ponedelnik \<and> map_of weekdays Ponedelnik = Some 0 \<and>
   time monday_0005 = Some (ascii ''00:05'') \<and> strptime_HM (ascii ''00:05'') = Inr (0, 5) \<and>
   (60::int) * 0 + 5 < 15 \<and>
   \<lparr>callback = send_event_reminder_cb, at_hour = 23, at_minute = 50,
    tzinfo = ascii ''Europe/Moscow'', days = [0],
    job_data = Some (reminder_payload monday_0005), name = reminder_name 0 monday_0005\<rparr>
     \<in> set (fst (schedule_jobs_lab2 any_zone None (store_of (doc_of_events [monday_0005]))
                  monday_noon)) \<and>
   \<lparr>callback = send_event_reminder_cb, at_hour = 23, at_minute = 50,
    tzinfo = ascii ''Europe/Moscow'', days = [0],
    job_data = Some (reminder_payload monday_0005), name = reminder_name 0 monday_0005\<rparr>
     \<in> set (fst (schedule_jobs_lab3 any_zone None (store_of (doc_of_events [monday_0005]))
                  monday_noon)) \<and>
   weekday_names ! 0 = Ponedelnik \<and>
   runs_on \<lparr>callback = send_event_reminder_cb, at_hour = 23, at_minute = 50,
    tzinfo = ascii ''Europe/Moscow'', days = [0],
    job_data = Some (reminder_payload monday_0005), name = reminder_name 0 monday_0005\<rparr>
     = [6] \<and>
   weekday_names ! 6 = Voskresenye"
proof -
  have a: "monday_0005 \<in> set (get_events (fst (load_data (store_of (doc_of_events [monday_0005])))))"
    by (simp add: load_store_of doc_of_events_def get_events_def)
  have b: "day monday_0005 = Some Ponedelnik" by (simp add: monday_0005_def)
  have c: "time monday_0005 = Some (ascii ''00:05'')" by (simp add: monday_0005_def)
  have d: "(60::int) * 0 + 5 < 15" by simp
  have r: "run_daily_weekday 0 = 6" by (simp add: run_daily_weekday_def)
  have n: "weekday_names ! 6 = Voskresenye" by (simp add: weekday_names_def)
  show ?thesis
    using early_event_reminder_runs_on_previous_weekday
            [OF a b monday_lookup c strptime_ascii(2) d, of any_zone None monday_noon]
          a b c monday_lookup strptime_ascii(2) n
    by (simp add: get_timezone_any_zone r)
qed






lemma recognized_iff_lookup:
  "label \<in> set weekday_names \<longleftrightarrow> map_of weekdays label \<noteq> None"
  by (auto simp: weekday_names_def weekdays_def)

lemma reminder_job_lab2_well_formed:
  assumes "well_formed ev"
  shows "\<exists>j. reminder_job_lab2 tz now ev = Inr j \<and> reminder_job_lab3 tz now ev = Inr j \<and>
             callback j = send_event_reminder_cb \<and> job_data j = Some (reminder_payload ev)"
proof -
  obtain label where l: "day ev = Some label" and lm: "label \<in> set weekday_names"
    using assms by (auto simp: well_formed_def recognized_day_def split: option.splits)
  obtain idx where i: "map_of weekdays label = Some idx"
    using lm recognized_iff_lookup by blast
  obtain s where s: "time ev = Some s" and sp: "\<not> isl (strptime_HM s)"
    using assms by (auto simp: well_formed_def parsable_time_def split: option.splits)
  obtain h m where p: "strptime_HM s = Inr (h, m)"
    using sp by (cases "strptime_HM s") auto
  have "day ev \<noteq> None" using l by simp
  then show ?thesis
    by (simp add: reminder_job_lab3_eq_lab2 reminder_job_lab2_parsed[OF l i s p])
qed

lemma reminder_job_malformed:
  assumes "(day ev \<noteq> None \<and> recognized_day ev = False) \<or>
           (time ev \<noteq> None \<and> parsable_time ev = False)"
  shows "isl (reminder_job_lab2 tz now ev) \<and> isl (reminder_job_lab3 tz now ev)"
  using assms
  by (auto simp: recognized_day_def parsable_time_def recognized_iff_lookup
        reminder_job_lab2_def reminder_job_lab3_def ru_to_py_weekday_def get_or_def
        split: option.splits sum.splits)

text \<open>
  C5: in both files the jobs registered by \<open>schedule_jobs\<close> are the daily digest job
  followed, in the order of the list, by the job of every event whose \<open>try\<close> block
  succeeds, and one warning is logged for every event whose block raises. The block of
  a well-formed event succeeds, with a reminder job that carries its payload; the block
  of an event with an unrecognized weekday label or an unparsable time raises. So a
  malformed event is the only one skipped, and the function returns.
\<close>
theorem malformed_event_is_skipped_alone:
  assumes "tz = fst (get_timezone_lab2 known tz_env)"
    and "evs = get_events (fst (load_data f))"
  shows "tz = fst (get_timezone_lab3 known tz_env)
       \<and> map Inr (fst (schedule_jobs_lab2 known tz_env f now)) =
           Inr (daily_digest_job tz) # filter (\<lambda>r. \<not> isl r) (map (reminder_job_lab2 tz now) evs)
       \<and> map Inr (fst (schedule_jobs_lab3 known tz_env f now)) =
           Inr (daily_digest_job tz) # filter (\<lambda>r. \<not> isl r) (map (reminder_job_lab3 tz now) evs)
       \<and> snd (schedule_jobs_lab2 known tz_env f now) =
           snd (get_timezone_lab2 known tz_env) @ snd (load_data f) @
           concat (map (\<lambda>ev. case reminder_job_lab2 tz now ev of
                                Inl exc \<Rightarrow> [LogWarning (ScheduleFailed ev exc)]
                              | Inr j \<Rightarrow> []) evs)
       \<and> snd (schedule_jobs_lab3 known tz_env f now) =
           snd (get_timezone_lab3 known tz_env) @ snd (load_data f) @
           concat (map (\<lambda>ev. case reminder_job_lab3 tz now ev of
                                Inl exc \<Rightarrow> [LogWarning (ScheduleFailed ev exc)]
                              | Inr j \<Rightarrow> []) evs)
       \<and> (\<forall>ev. well_formed ev \<longrightarrow>
             (\<exists>j. reminder_job_lab2 tz now ev = Inr j \<and> reminder_job_lab3 tz now ev = Inr j \<and>
                  callback j = send_event_reminder_cb \<and>
                  job_data j = Some (reminder_payload ev)))
       \<and> (\<forall>ev. (day ev \<noteq> None \<and> recognized_day ev = False) \<or>
                (time ev \<noteq> None \<and> parsable_time ev = False) \<longrightarrow>
             isl (reminder_job_lab2 tz now ev) \<and> isl (reminder_job_lab3 tz now ev))"
proof -
  have j2: "map Inr (fst (schedule_jobs_lab2 known tz_env f now)) =
           Inr (daily_digest_job tz) # filter (\<lambda>r. \<not> isl r) (map (reminder_job_lab2 tz now) evs)"
    unfolding schedule_jobs_lab2_unfold assms schedule_events_jobs by simp
  have j3: "map Inr (fst (schedule_jobs_lab3 known tz_env f now)) =
           Inr (daily_digest_job tz) # filter (\<lambda>r. \<not> isl r) (map (reminder_job_lab3 tz now) evs)"
    unfolding schedule_jobs_lab3_unfold assms schedule_events_jobs by simp
  have l2: "snd (schedule_jobs_lab2 known tz_env f now) =
           snd (get_timezone_lab2 known tz_env) @ snd (load_data f) @
           concat (map (\<lambda>ev. case reminder_job_lab2 tz now ev of
                                Inl exc \<Rightarrow> [LogWarning (ScheduleFailed ev exc)]
                              | Inr j \<Rightarrow> []) evs)"
    unfolding schedule_jobs_lab2_unfold assms schedule_events_log by simp
  have l3: "snd (schedule_jobs_lab3 known tz_env f now) =
           snd (get_timezone_lab3 known tz_env) @ snd (load_data f) @
           concat (map (\<lambda>ev. case reminder_job_lab3 tz now ev of
                                Inl exc \<Rightarrow> [LogWarning (ScheduleFailed ev exc)]
                              | Inr j \<Rightarrow> []) evs)"
    unfolding schedule_jobs_lab3_unfold assms schedule_events_log by simp
  have z: "tz = fst (get_timezone_lab3 known tz_env)"
    by (simp add: assms(1) get_timezone_same_zone)
  show ?thesis
    using z j2 j3 l2 l3 reminder_job_lab2_well_formed reminder_job_malformed by blast
qed

lemma funday_lookup: "map_of weekdays (ascii ''Funday'') = None"
  by (simp add: weekdays_def ascii_def Ponedelnik_def Vtornik_def Sreda_def Chetverg_def
        Pyatnitsa_def Subbota_def Voskresenye_def)

lemma funday_skipped:
  "reminder_job_lab2 tz now funday_1000 = Inl KeyError"
  "reminder_job_lab3 tz now funday_1000 = Inl KeyError"
  by (simp_all add: reminder_job_lab2_def reminder_job_lab3_def ru_to_py_weekday_def
        funday_1000_def get_or_def funday_lookup)

lemma bad_time_skipped:
  "reminder_job_lab2 tz now friday_2599 = Inl ValueError"
  "reminder_job_lab3 tz now friday_2599 = Inl ValueError"
  by (simp_all add: reminder_job_lab2_def reminder_job_lab3_def ru_to_py_weekday_def
        friday_2599_def get_or_def friday_lookup strptime_ascii(4))

lemma friday_scheduled:
  "reminder_job_lab2 tz monday_noon friday_0910 =
     Inr \<lparr>callback = send_event_reminder_cb, at_hour = 8, at_minute = 55, tzinfo = tz,
          days = [4], job_data = Some (reminder_payload friday_0910),
          name = reminder_name 4 friday_0910\<rparr>"
  "reminder_job_lab3 tz monday_noon friday_0910 =
     Inr \<lparr>callback = send_event_reminder_cb, at_hour = 8, at_minute = 55, tzinfo = tz,
          days = [4], job_data = Some (reminder_payload friday_0910),
          name = reminder_name 4 friday_0910\<rparr>"
  by (simp_all add: reminder_job_lab2_def reminder_job_lab3_def ru_to_py_weekday_def
        friday_0910_def get_or_def friday_lookup strptime_ascii(1) minus_minutes_def
        monday_noon_def)

lemma monday_scheduled:
  "reminder_job_lab2 tz monday_noon monday_0005 =
     Inr \<lparr>callback = send_event_reminder_cb, at_hour = 23, at_minute = 50, tzinfo = tz,
          days = [0], job_data = Some (reminder_payload monday_0005),
          name = reminder_name 0 monday_0005\<rparr>"
  "reminder_job_lab3 tz monday_noon monday_0005 =
     Inr \<lparr>callback = send_event_reminder_cb, at_hour = 23, at_minute = 50, tzinfo = tz,
          days = [0], job_data = Some (reminder_payload monday_0005),
          name = reminder_name 0 monday_0005\<rparr>"
  by (simp_all add: reminder_job_lab2_def reminder_job_lab3_def ru_to_py_weekday_def
        monday_0005_def get_or_def monday_lookup strptime_ascii(2) minus_minutes_def
        monday_noon_def)

theorem malformed_event_is_skipped_alone_witness:
  "well_formed friday_0910 \<and> well_formed monday_0005 \<and>
   day funday_1000 \<noteq> None \<and> recognized_day funday_1000 = False \<and>
   time friday_2599 \<noteq> None \<and> parsable_time friday_2599 = False \<and>
   map (\<lambda>j. (days j, at_hour j, at_minute j))
     (fst (schedule_jobs_lab2 any_zone None (store_of (doc_of_events mixed_events)) monday_noon)) =
     [(all_days, 9, 0), ([4], 8, 55), ([0], 23, 50)] \<and>
   map (\<lambda>j. (days j, at_hour j, at_minute j))
     (fst (schedule_jobs_lab3 any_zone None (store_of (doc_of_events mixed_events)) monday_noon)) =
     [(all_days, 9, 0), ([4], 8, 55), ([0], 23, 50)] \<and>
   snd (schedule_jobs_lab2 any_zone None (store_of (doc_of_events mixed_events)) monday_noon) =
     [LogWarning (ScheduleFailed funday_1000 KeyError),
      LogWarning (ScheduleFailed friday_2599 ValueError)] \<and>
   snd (schedule_jobs_lab3 any_zone None (store_of (doc_of_events mixed_events)) monday_noon) =
     [LogWarning (ScheduleFailed funday_1000 KeyError),
      LogWarning (ScheduleFailed friday_2599 ValueError)]"
proof -
  let ?f = "store_of (doc_of_events mixed_events)"
  have w1: "well_formed friday_0910"
    by (simp add: well_formed_def recognized_day_def parsable_time_def friday_0910_def
          strptime_ascii(1) recognized_iff_lookup friday_lookup)
  have w2: "well_formed monday_0005"
    by (simp add: well_formed_def recognized_day_def parsable_time_def monday_0005_def
          strptime_ascii(2) recognized_iff_lookup monday_lookup)
  have b1: "day funday_1000 \<noteq> None \<and> recognized_day funday_1000 = False"
    by (simp add: recognized_day_def funday_1000_def recognized_iff_lookup funday_lookup)
  have b2: "time friday_2599 \<noteq> None \<and> parsable_time friday_2599 = False"
    by (simp add: parsable_time_def friday_2599_def strptime_ascii(4))
  have tz: "ascii ''Europe/Moscow'' = fst (get_timezone_lab2 any_zone None)"
    by (simp add: get_timezone_any_zone)
  have tzl: "snd (get_timezone_lab2 any_zone None) = []" "snd (get_timezone_lab3 any_zone None) = []"
    by (simp_all add: get_timezone_any_zone)
  have evs: "mixed_events = get_events (fst (load_data ?f))"
    by (simp add: load_data_def store_of_def doc_of_events_def get_events_def)
  have ll: "snd (load_data ?f) = []"
    by (simp add: load_data_def store_of_def)
  note t = malformed_event_is_skipped_alone [OF tz evs, of monday_noon]
  have j2: "map Inr (fst (schedule_jobs_lab2 any_zone None ?f monday_noon)) =
            (map Inr [daily_digest_job (ascii ''Europe/Moscow''),
               \<lparr>callback = send_event_reminder_cb, at_hour = 8, at_minute = 55,
                tzinfo = ascii ''Europe/Moscow'',
                days = [4], job_data = Some (reminder_payload friday_0910),
                name = reminder_name 4 friday_0910\<rparr>,
               \<lparr>callback = send_event_reminder_cb, at_hour = 23, at_minute = 50,
                tzinfo = ascii ''Europe/Moscow'',
                days = [0], job_data = Some (reminder_payload monday_0005),
                name = reminder_name 0 monday_0005\<rparr>] :: (exn + job) list)"
    using t by (simp add: mixed_events_def funday_skipped bad_time_skipped friday_scheduled
                  monday_scheduled)
  have j3: "map Inr (fst (schedule_jobs_lab3 any_zone None ?f monday_noon)) =
            (map Inr [daily_digest_job (ascii ''Europe/Moscow''),
               \<lparr>callback = send_event_reminder_cb, at_hour = 8, at_minute = 55,
                tzinfo = ascii ''Europe/Moscow'',
                days = [4], job_data = Some (reminder_payload friday_0910),
                name = reminder_name 4 friday_0910\<rparr>,
               \<lparr>callback = send_event_reminder_cb, at_hour = 23, at_minute = 50,
                tzinfo = ascii ''Europe/Moscow'',
                days = [0], job_data = Some (reminder_payload monday_0005),
                name = reminder_name 0 monday_0005\<rparr>] :: (exn + job) list)"
    using t by (simp add: mixed_events_def funday_skipped bad_time_skipped friday_scheduled
                  monday_scheduled)
  have inj: "\<And>xs ys :: job list. map Inr xs = (map Inr ys :: (exn + job) list) \<Longrightarrow> xs = ys"
    by (simp add: inj_map_eq_map)
  have s2: "map (\<lambda>j. (days j, at_hour j, at_minute j))
     (fst (schedule_jobs_lab2 any_zone None ?f monday_noon)) =
     [(all_days, 9, 0), ([4], 8, 55), ([0], 23, 50)]"
    unfolding inj[OF j2] by (simp add: daily_digest_job_def)
  have s3: "map (\<lambda>j. (days j, at_hour j, at_minute j))
     (fst (schedule_jobs_lab3 any_zone None ?f monday_noon)) =
     [(all_days, 9, 0), ([4], 8, 55), ([0], 23, 50)]"
    unfolding inj[OF j3] by (simp add: daily_digest_job_def)
  have g2: "snd (schedule_jobs_lab2 any_zone None ?f monday_noon) =
     [LogWarning (ScheduleFailed funday_1000 KeyError),
      LogWarning (ScheduleFailed friday_2599 ValueError)]"
    using t by (simp add: tzl load_store_of mixed_events_def funday_skipped bad_time_skipped
                  friday_scheduled monday_scheduled)
  have g3: "snd (schedule_jobs_lab3 any_zone None ?f monday_noon) =
     [LogWarning (ScheduleFailed funday_1000 KeyError),
      LogWarning (ScheduleFailed friday_2599 ValueError)]"
    using t by (simp add: tzl load_store_of mixed_events_def funday_skipped bad_time_skipped
                  friday_scheduled monday_scheduled)
  show ?thesis using w1 w2 b1 b2 s2 s3 g2 g3 by simp
qed

section \<open>Notifier\<close>

lemma send_daily_digest_loaded:
  assumes "data_file f = Some (Json d)"
    and "map_of (get_digests d) (weekday_ru now) = Some m" and "m \<noteq> []"
  shows "send_daily_digest_lab2 known tz_env f now ok =
         snd (get_timezone_lab2 known tz_env) @ send_all ok DigestSendFailed m (get_subscribers d)"
    and "send_daily_digest_lab3 known tz_env f now ok =
         snd (get_timezone_lab3 known tz_env) @ send_all ok DigestSendFailed m (get_subscribers d)"
  using assms
  by (simp_all add: send_daily_digest_lab2_def send_daily_digest_lab3_def load_data_Json
        split_def Let_def)

lemma send_event_reminder_loaded:
  assumes "data_file f = Some (Json d)"
  shows "send_event_reminder f ok j =
         (if get_events d = [] then []
          else send_all ok ReminderSendFailed (reminder_text (data_or_empty j)) (get_subscribers d))"
  using assms
  by (simp add: send_event_reminder_def load_data_Json Let_def)

text \<open>
  C6: over the subscriber list [111, 222], when sending to 111 raises and sending to 222
  succeeds, a digest fire (with a non-empty digest for today) and a reminder fire (with
  a non-empty stored event list) each log one warning for 111 and still deliver the
  message to 222; the notifier returns its effects, no exception leaves it.
\<close>
theorem delivery_failure_does_not_stop_the_loop:
  assumes "data_file f = Some (Json d)" and "subscribers d = Some [111, 222]"
    and "ok 111 = False" and "ok 222"
  shows "(map_of (get_digests d) (weekday_ru now) = Some m \<and> m \<noteq> [] \<longrightarrow>
            send_daily_digest_lab2 known tz_env f now ok =
            snd (get_timezone_lab2 known tz_env) @
            [LogWarning (DigestSendFailed 111), SendMessage 222 m] \<and>
            send_daily_digest_lab3 known tz_env f now ok =
            snd (get_timezone_lab3 known tz_env) @
            [LogWarning (DigestSendFailed 111), SendMessage 222 m])
       \<and> (get_events d \<noteq> [] \<longrightarrow>
            send_event_reminder f ok j =
            [LogWarning (ReminderSendFailed 111),
             SendMessage 222 (reminder_text (data_or_empty j))])"
proof -
  have s: "get_subscribers d = [111, 222]" using assms(2) by (simp add: get_subscribers_def)
  show ?thesis
    using assms(3,4)
    by (simp add: send_daily_digest_loaded[OF assms(1)] send_event_reminder_loaded[OF assms(1)] s)
qed

lemma monday_noon_weekday: "weekday_ru monday_noon = Ponedelnik"
  by (simp add: weekday_ru_def weekday_def monday_noon_def weekday_names_def)

theorem delivery_failure_does_not_stop_the_loop_witness:
  "data_file (store_of hi_doc) = Some (Json hi_doc) \<and>
   subscribers hi_doc = Some [111, 222] \<and>
   all_but_111 111 = False \<and> all_but_111 222 \<and>
   map_of (get_digests hi_doc) (weekday_ru monday_noon) = Some (ascii ''Hi'') \<and>
   ascii ''Hi'' \<noteq> [] \<and> get_events hi_doc \<noteq> [] \<and>
   send_daily_digest_lab2 any_zone None (store_of hi_doc) monday_noon all_but_111 =
     [LogWarning (DigestSendFailed 111), SendMessage 222 (ascii ''Hi'')] \<and>
   send_daily_digest_lab3 any_zone None (store_of hi_doc) monday_noon all_but_111 =
     [LogWarning (DigestSendFailed 111), SendMessage 222 (ascii ''Hi'')] \<and>
   send_event_reminder (store_of hi_doc) all_but_111 demo_job =
     [LogWarning (ReminderSendFailed 111),
      SendMessage 222 (reminder_text (reminder_payload friday_0910))]"
proof -
  have a: "data_file (store_of hi_doc) = Some (Json hi_doc)" by (simp add: store_of_def)
  have b: "subscribers hi_doc = Some [111, 222]" by (simp add: hi_doc_def)
  have c: "all_but_111 111 = False" by (simp add: all_but_111_def)
  have d: "all_but_111 222" by (simp add: all_but_111_def)
  have e: "map_of (get_digests hi_doc) (weekday_ru monday_noon) = Some (ascii ''Hi'')"
    by (simp add: monday_noon_weekday get_digests_def hi_doc_def)
  have g: "ascii ''Hi'' \<noteq> []" by (simp add: ascii_def)
  have h: "get_events hi_doc \<noteq> []" by (simp add: get_events_def hi_doc_def)
  have tzl: "snd (get_timezone_lab2 any_zone None) = []" "snd (get_timezone_lab3 any_zone None) = []"
    by (simp_all add: get_timezone_any_zone)
  have p: "data_or_empty demo_job = reminder_payload friday_0910"
    by (simp add: data_or_empty_def demo_job_def)
  show ?thesis
    using delivery_failure_does_not_stop_the_loop
            [OF a b c d, of monday_noon "ascii ''Hi''" any_zone None demo_job]
          a b c d e g h
    by (simp add: tzl p)
qed

text \<open>
  C4: when a reminder trigger fires and the stored event list is not empty, the message
  built from the job's payload (title, time, description) is sent to every stored
  subscriber, a failed delivery being logged; when the stored event list is empty or
  missing, nothing is sent, whatever the subscriber list.
\<close>
theorem reminder_sent_when_events_present:
  assumes "data_file f = Some (Json d)"
  shows "(get_events d \<noteq> [] \<longrightarrow>
            send_event_reminder f ok j =
            map (\<lambda>chat_id. if ok chat_id
                            then SendMessage chat_id (reminder_text (data_or_empty j))
                            else LogWarning (ReminderSendFailed chat_id))
                (get_subscribers d))
       \<and> (get_events d = [] \<longrightarrow> send_event_reminder f ok j = [])"
  by (simp add: send_event_reminder_loaded[OF assms] send_all_map)

theorem reminder_sent_when_events_present_witness:
  "data_file (store_of hi_doc) = Some (Json hi_doc) \<and> get_events hi_doc \<noteq> [] \<and>
   send_event_reminder (store_of hi_doc) always_ok demo_job =
     [SendMessage 111 (reminder_text (reminder_payload friday_0910)),
      SendMessage 222 (reminder_text (reminder_payload friday_0910))] \<and>
   reminder_text (reminder_payload friday_0910) =
     [1053, 1072, 1087, 1086, 1084, 1080, 1085, 1072, 1085, 1080, 1077, 58, 32] @ ascii ''Demo''
     @ [32, 1074, 32] @ ascii ''09:10'' @ [46, 32] @ ascii ''Weekly demo''"
proof -
  have a: "data_file (store_of hi_doc) = Some (Json hi_doc)" by (simp add: store_of_def)
  have h: "get_events hi_doc \<noteq> []" by (simp add: get_events_def hi_doc_def)
  have s: "get_subscribers hi_doc = [111, 222]" by (simp add: get_subscribers_def hi_doc_def)
  have p: "data_or_empty demo_job = reminder_payload friday_0910"
    by (simp add: data_or_empty_def demo_job_def)
  have t: "reminder_text (reminder_payload friday_0910) =
     [1053, 1072, 1087, 1086, 1084, 1080, 1085, 1072, 1085, 1080, 1077, 58, 32] @ ascii ''Demo''
     @ [32, 1074, 32] @ ascii ''09:10'' @ [46, 32] @ ascii ''Weekly demo''"
    by (simp add: reminder_text_def reminder_payload_def friday_0910_def py_str_def)
  show ?thesis
    using reminder_sent_when_events_present [OF a, of always_ok demo_job] a h t
    by (simp add: s p always_ok_def)
qed

theorem reminder_not_sent_counterexample:
  "get_subscribers (fst (load_data (store_of no_events_doc))) = [111, 222] \<and>
   send_event_reminder (store_of no_events_doc) always_ok demo_job = [] \<and>
   SendMessage 111 (reminder_text (data_or_empty demo_job))
     \<notin> set (send_event_reminder (store_of no_events_doc) always_ok demo_job)"
proof -
  have a: "data_file (store_of no_events_doc) = Some (Json no_events_doc)"
    by (simp add: store_of_def)
  have e: "get_events no_events_doc = []" by (simp add: get_events_def no_events_doc_def)
  have r: "send_event_reminder (store_of no_events_doc) always_ok demo_job = []"
    by (simp add: send_event_reminder_loaded[OF a] e)
  have s: "get_subscribers (fst (load_data (store_of no_events_doc))) = [111, 222]"
    by (simp add: load_store_of get_subscribers_def no_events_doc_def)
  show ?thesis unfolding r s by simp
qed

section \<open>The JSON text round trip\<close>

text \<open>
  The decoder inverts the encoder on well-formed values: first strings and integers,
  then values, lists of items and lists of members together, by the induction of
  \<open>dumps\<close>.
\<close>

declare str_nat.simps [simp del]











































lemma unencodable_document_is_not_saved:
  "\<not> utf8_encodable (json_dumps D) \<Longrightarrow> save_data_text D f = (f, [LogError SaveFailed])"
  by (simp add: save_data_text_def)




end
